theory Spec2Isabelle
  imports Main "HOL-Library.Multiset"
begin

section \<open>Python values used by server.py\<close>

text \<open>
  A Python \<open>str\<close> is a \<open>string\<close>; each \<open>char\<close> stands for one code point below 256.
  A Python \<open>dict\<close> is an association list in insertion order with distinct keys: iteration
  (\<open>items()\<close>) follows that order, and assigning to a key that is present keeps its place.
\<close>

type_synonym 'v pydict = "(string \<times> 'v) list"

definition keys :: "'v pydict \<Rightarrow> string list" where
  "keys d = map fst d"

definition dict_contains :: "string \<Rightarrow> 'v pydict \<Rightarrow> bool" where
  "dict_contains k d = (k \<in> set (keys d))"

text \<open>\<open>d[k] = v\<close>\<close>

fun dict_set :: "string \<Rightarrow> 'v \<Rightarrow> 'v pydict \<Rightarrow> 'v pydict" where
  "dict_set k v [] = [(k, v)]"
| "dict_set k v ((k', v') # d) =
     (if k' = k then (k', v) # d else (k', v') # dict_set k v d)"

text \<open>\<open>d.pop(k)\<close>: the value and the dictionary without the key; a missing key raises
  KeyError, whose \<open>str\<close> is the \<open>repr\<close> of the key.\<close>

definition dict_pop :: "string \<Rightarrow> 'v pydict \<Rightarrow> string + ('v \<times> 'v pydict)" where
  "dict_pop k d =
     (case map_of d k of
        None \<Rightarrow> Inl (CHR 0x27 # k @ [CHR 0x27])
      | Some v \<Rightarrow> Inr (v, filter (\<lambda>kv. fst kv \<noteq> k) d))"

text \<open>\<open>str.isspace\<close> on code points below 256: TAB to CR, FS to US, space, NEL and NBSP.\<close>

definition isspace :: "char \<Rightarrow> bool" where
  "isspace c =
     (let n = (of_char c :: nat)
      in (9 \<le> n \<and> n \<le> 13) \<or> (28 \<le> n \<and> n \<le> 32) \<or> n = 133 \<or> n = 160)"

text \<open>\<open>str.strip()\<close> without argument removes leading and trailing whitespace.\<close>

definition strip :: "string \<Rightarrow> string" where
  "strip s = rev (dropWhile isspace (rev (dropWhile isspace s)))"

text \<open>\<open>str.lower()\<close> on code points below 256: \<open>A\<close>..\<open>Z\<close> and the Latin-1 capitals
  (0xC0..0xDE without the multiplication sign 0xD7) move up by 32.\<close>

definition lower_char :: "char \<Rightarrow> char" where
  "lower_char c =
     (let n = (of_char c :: nat)
      in if (65 \<le> n \<and> n \<le> 90) \<or> (192 \<le> n \<and> n \<le> 222 \<and> n \<noteq> 215)
         then char_of (n + 32) else c)"

definition lower :: "string \<Rightarrow> string" where
  "lower s = map lower_char s"

definition startswith :: "string \<Rightarrow> string \<Rightarrow> bool" where
  "startswith s p = (take (length p) s = p)"

text \<open>\<open>sep.join(xs)\<close>\<close>

fun join :: "string \<Rightarrow> string list \<Rightarrow> string" where
  "join sep [] = []"
| "join sep [x] = x"
| "join sep (x # y # xs) = x @ sep @ join sep (y # xs)"

section \<open>The database driver as seen by the tools\<close>

text \<open>
  A value of a result row. What the executor answers to a statement: \<open>fetched\<close> is what
  \<open>cursor.fetchall()\<close> gives (it raises when the statement left no result set) and
  \<open>description\<close> the column names of \<open>cursor.description\<close> (\<open>None\<close> when there are none).
\<close>

datatype sqlval = Null | Text string | Num int | Flag bool

record reply =
  fetched :: "string + sqlval list list"
  description :: "string list option"

text \<open>
  The driver behind \<open>database_connection()\<close>. \<open>connect = Some m\<close>: opening the
  connection raises an exception whose \<open>str\<close> is \<open>m\<close>. \<open>execute q ps\<close>: what
  \<open>cursor.execute(q, ps)\<close> does, \<open>Inl m\<close> for an exception. \<open>close = Some m\<close>:
  \<open>conn.close()\<close> raises. \<open>index_error\<close> is the text of the IndexError raised by reading
  a row past its end.
\<close>

record executor =
  connect :: "string option"
  execute :: "string \<Rightarrow> string list \<Rightarrow> string + reply"
  close :: "string option"
  index_error :: string

text \<open>What a run of a tool did to the database, in order.\<close>

datatype event = Opened | Executed string "string list" | Closed

text \<open>What a tool returns: \<open>{"error": m}\<close>, a list of records, a list of scalars, or the
  mapping of \<open>get_database_stats\<close>.\<close>

datatype pyval = Scalar sqlval | Records "sqlval pydict list"

datatype payload =
    ErrorPayload string
  | ResultSet "sqlval pydict list"
  | Names "sqlval list"
  | Stats "pyval pydict"

text \<open>\<open>try: ... except Exception as e: return {"error": str(e)}\<close>\<close>

definition catch :: "string + payload \<Rightarrow> payload" where
  "catch r = (case r of Inl m \<Rightarrow> ErrorPayload m | Inr p \<Rightarrow> p)"

section \<open>Result normalisation (server.py 87-92 and 217-222)\<close>

text \<open>The inner loop \<open>for i, col in enumerate(column_names): record[col] = row[i]\<close>,
  started at index \<open>i\<close> with the record built so far.\<close>

fun make_record ::
  "string \<Rightarrow> string list \<Rightarrow> sqlval list \<Rightarrow> nat \<Rightarrow> sqlval pydict \<Rightarrow> string + sqlval pydict" where
  "make_record ie [] row i record = Inr record"
| "make_record ie (col # cols) row i record =
     (if i < length row then make_record ie cols row (Suc i) (dict_set col (row ! i) record)
      else Inl ie)"

text \<open>The outer loop \<open>for row in results: ...; formatted_results.append(record)\<close>.\<close>

fun format_results ::
  "string \<Rightarrow> string list \<Rightarrow> sqlval list list \<Rightarrow> string + sqlval pydict list" where
  "format_results ie column_names [] = Inr []"
| "format_results ie column_names (row # results) =
     (case make_record ie column_names row 0 [] of
        Inl m \<Rightarrow> Inl m
      | Inr record \<Rightarrow>
          (case format_results ie column_names results of
             Inl m \<Rightarrow> Inl m
           | Inr formatted \<Rightarrow> Inr (record # formatted)))"

text \<open>\<open>[desc[0] for desc in cursor.description]\<close>: iterating \<open>None\<close> raises TypeError.\<close>

definition column_names_of :: "reply \<Rightarrow> string + string list" where
  "column_names_of r =
     (case description r of
        None \<Rightarrow> Inl (CHR 0x27 # ''NoneType' object is not iterable'')
      | Some names \<Rightarrow> Inr names)"

section \<open>execute_query (server.py 54-97)\<close>

text \<open>The body of the \<open>try\<close> block: the exception or the returned value, with the
  events of the run.\<close>

definition execute_query_body :: "executor \<Rightarrow> string \<Rightarrow> (string + payload) \<times> event list" where
  "execute_query_body ex query =
     (if \<not> startswith (lower (strip query)) ''select''
      then (Inl ''Only SELECT queries are allowed.'', [])
      else
        (case connect ex of
           Some m \<Rightarrow> (Inl m, [])
         | None \<Rightarrow>
             (case execute ex query [] of
                Inl m \<Rightarrow> (Inl m, [Opened, Executed query []])
              | Inr r \<Rightarrow>
                  (case fetched r of
                     Inl m \<Rightarrow> (Inl m, [Opened, Executed query []])
                   | Inr results \<Rightarrow>
                       (case column_names_of r of
                          Inl m \<Rightarrow> (Inl m, [Opened, Executed query []])
                        | Inr column_names \<Rightarrow>
                            (case close ex of
                               Some m \<Rightarrow> (Inl m, [Opened, Executed query []])
                             | None \<Rightarrow>
                                 (case format_results (index_error ex) column_names results of
                                    Inl m \<Rightarrow> (Inl m, [Opened, Executed query [], Closed])
                                  | Inr formatted_results \<Rightarrow>
                                      (Inr (ResultSet formatted_results),
                                       [Opened, Executed query [], Closed]))))))))"

definition execute_query :: "executor \<Rightarrow> string \<Rightarrow> payload \<times> event list" where
  "execute_query ex query =
     (case execute_query_body ex query of (r, events) \<Rightarrow> (catch r, events))"

section \<open>list_tables (server.py 100-126)\<close>

definition list_tables_sql :: string where
  "list_tables_sql =
     CHR 0x0A #
     ''            SELECT table_name '' @ CHR 0x0A #
     ''            FROM information_schema.tables '' @ CHR 0x0A #
     ''            WHERE table_schema = 'public'' @ CHR 0x27 # CHR 0x0A #
     ''            ORDER BY table_name'' @ CHR 0x0A #
     ''        ''"

text \<open>\<open>[row[0] for row in cursor.fetchall()]\<close>\<close>

fun first_fields :: "string \<Rightarrow> sqlval list list \<Rightarrow> string + sqlval list" where
  "first_fields ie [] = Inr []"
| "first_fields ie ([] # rows) = Inl ie"
| "first_fields ie ((v # vs) # rows) =
     (case first_fields ie rows of Inl m \<Rightarrow> Inl m | Inr names \<Rightarrow> Inr (v # names))"

definition list_tables_body :: "executor \<Rightarrow> (string + payload) \<times> event list" where
  "list_tables_body ex =
     (case connect ex of
        Some m \<Rightarrow> (Inl m, [])
      | None \<Rightarrow>
          (case execute ex list_tables_sql [] of
             Inl m \<Rightarrow> (Inl m, [Opened, Executed list_tables_sql []])
           | Inr r \<Rightarrow>
               (case fetched r of
                  Inl m \<Rightarrow> (Inl m, [Opened, Executed list_tables_sql []])
                | Inr rows \<Rightarrow>
                    (case first_fields (index_error ex) rows of
                       Inl m \<Rightarrow> (Inl m, [Opened, Executed list_tables_sql []])
                     | Inr table_list \<Rightarrow>
                         (case close ex of
                            Some m \<Rightarrow> (Inl m, [Opened, Executed list_tables_sql []])
                          | None \<Rightarrow>
                              (Inr (Names table_list),
                               [Opened, Executed list_tables_sql [], Closed]))))))"

definition list_tables :: "executor \<Rightarrow> payload \<times> event list" where
  "list_tables ex = (case list_tables_body ex of (r, events) \<Rightarrow> (catch r, events))"

section \<open>get_table_schema (server.py 129-166)\<close>

definition schema_sql :: string where
  "schema_sql =
     CHR 0x0A #
     ''            SELECT column_name, data_type, is_nullable, column_default'' @ CHR 0x0A #
     ''            FROM information_schema.columns'' @ CHR 0x0A #
     ''            WHERE table_name = %s'' @ CHR 0x0A #
     ''            ORDER BY ordinal_position'' @ CHR 0x0A #
     ''        ''"

text \<open>The dictionary literal of lines 153-158; \<open>row[0]\<close> raises on an empty row, and so on.\<close>

definition schema_record :: "string \<Rightarrow> sqlval list \<Rightarrow> string + sqlval pydict" where
  "schema_record ie row =
     (if length row < 4 then Inl ie
      else Inr [(''column_name'', row ! 0), (''data_type'', row ! 1),
                (''is_nullable'', row ! 2), (''default_value'', row ! 3)])"

fun schema_records :: "string \<Rightarrow> sqlval list list \<Rightarrow> string + sqlval pydict list" where
  "schema_records ie [] = Inr []"
| "schema_records ie (row # rows) =
     (case schema_record ie row of
        Inl m \<Rightarrow> Inl m
      | Inr c \<Rightarrow>
          (case schema_records ie rows of Inl m \<Rightarrow> Inl m | Inr cs \<Rightarrow> Inr (c # cs)))"

definition get_table_schema_body ::
  "executor \<Rightarrow> string \<Rightarrow> (string + payload) \<times> event list" where
  "get_table_schema_body ex table_name =
     (case connect ex of
        Some m \<Rightarrow> (Inl m, [])
      | None \<Rightarrow>
          (case execute ex schema_sql [table_name] of
             Inl m \<Rightarrow> (Inl m, [Opened, Executed schema_sql [table_name]])
           | Inr r \<Rightarrow>
               (case fetched r of
                  Inl m \<Rightarrow> (Inl m, [Opened, Executed schema_sql [table_name]])
                | Inr rows \<Rightarrow>
                    (case schema_records (index_error ex) rows of
                       Inl m \<Rightarrow> (Inl m, [Opened, Executed schema_sql [table_name]])
                     | Inr column_list \<Rightarrow>
                         (case close ex of
                            Some m \<Rightarrow> (Inl m, [Opened, Executed schema_sql [table_name]])
                          | None \<Rightarrow>
                              (Inr (ResultSet column_list),
                               [Opened, Executed schema_sql [table_name], Closed]))))))"

definition get_table_schema :: "executor \<Rightarrow> string \<Rightarrow> payload \<times> event list" where
  "get_table_schema ex table_name =
     (case get_table_schema_body ex table_name of (r, events) \<Rightarrow> (catch r, events))"

section \<open>filter_instances (server.py 169-227)\<close>

text \<open>
  Lines 188-206, which do not touch the connection: the statement text, the bound
  parameters and the caller's dictionary as the block leaves it. The loop over
  \<open>filters.items()\<close> runs first, on the whole dictionary; the check for \<open>table_name\<close> and
  the \<open>pop\<close> come after it.
\<close>

definition build_filter_query ::
  "string pydict \<Rightarrow> (string + string \<times> string list) \<times> string pydict" where
  "build_filter_query filters =
     (let where_clauses = map (\<lambda>(column, val). column @ '' = %s'') filters;
          params = map (\<lambda>(column, val). val) filters;
          where_clause = join '' AND '' where_clauses
      in if \<not> dict_contains ''table_name'' filters
         then (Inl (CHR 0x27 # ''table_name' is required in filters parameter''), filters)
         else
           (case dict_pop ''table_name'' filters of
              Inl m \<Rightarrow> (Inl m, filters)
            | Inr (table_name, popped) \<Rightarrow>
                (let query = ''SELECT * FROM '' @ table_name
                 in (Inr (if where_clauses \<noteq> [] then query @ '' WHERE '' @ where_clause
                          else query,
                          params),
                     popped))))"

text \<open>The body of the \<open>try\<close> block, with the caller's dictionary after the call.\<close>

definition filter_instances_body ::
  "executor \<Rightarrow> string pydict \<Rightarrow> (string + payload) \<times> string pydict \<times> event list" where
  "filter_instances_body ex filters =
     (case connect ex of
        Some m \<Rightarrow> (Inl m, filters, [])
      | None \<Rightarrow>
          (case build_filter_query filters of
             (Inl m, after) \<Rightarrow> (Inl m, after, [Opened])
           | (Inr (query, params), after) \<Rightarrow>
               (case execute ex query params of
                  Inl m \<Rightarrow> (Inl m, after, [Opened, Executed query params])
                | Inr r \<Rightarrow>
                    (case fetched r of
                       Inl m \<Rightarrow> (Inl m, after, [Opened, Executed query params])
                     | Inr results \<Rightarrow>
                         (case column_names_of r of
                            Inl m \<Rightarrow> (Inl m, after, [Opened, Executed query params])
                          | Inr column_names \<Rightarrow>
                              (case close ex of
                                 Some m \<Rightarrow> (Inl m, after, [Opened, Executed query params])
                               | None \<Rightarrow>
                                   (case format_results (index_error ex) column_names results of
                                      Inl m \<Rightarrow>
                                        (Inl m, after, [Opened, Executed query params, Closed])
                                    | Inr instances \<Rightarrow>
                                        (Inr (ResultSet instances), after,
                                         [Opened, Executed query params, Closed]))))))))"

definition filter_instances ::
  "executor \<Rightarrow> string pydict \<Rightarrow> payload \<times> string pydict \<times> event list" where
  "filter_instances ex filters =
     (case filter_instances_body ex filters of (r, after, events) \<Rightarrow> (catch r, after, events))"

section \<open>get_database_stats (server.py 230-286)\<close>

definition size_sql :: string where
  "size_sql = ''SELECT pg_size_pretty(pg_database_size(current_database()))''"

definition count_sql :: string where
  "count_sql =
     ''SELECT count(*) FROM information_schema.tables WHERE table_schema = 'public'' @ [CHR 0x27]"

definition version_sql :: string where
  "version_sql = ''SELECT version()''"

definition largest_sql :: string where
  "largest_sql =
     CHR 0x0A #
     ''            SELECT '' @ CHR 0x0A #
     ''                table_name,'' @ CHR 0x0A #
     ''                pg_size_pretty(pg_total_relation_size(quote_ident(table_name))) as size'' @ CHR 0x0A #
     ''            FROM '' @ CHR 0x0A #
     ''                information_schema.tables'' @ CHR 0x0A #
     ''            WHERE '' @ CHR 0x0A #
     ''                table_schema = 'public'' @ CHR 0x27 # CHR 0x0A #
     ''            ORDER BY '' @ CHR 0x0A #
     ''                pg_total_relation_size(quote_ident(table_name)) DESC'' @ CHR 0x0A #
     ''            LIMIT 5'' @ CHR 0x0A #
     ''        ''"

text \<open>\<open>cursor.execute(q); x = cursor.fetchone()[0]\<close>: \<open>fetchone()\<close> is \<open>None\<close> when there is
  no row, and subscripting \<open>None\<close> raises TypeError.\<close>

definition query_one :: "executor \<Rightarrow> string \<Rightarrow> string + sqlval" where
  "query_one ex q =
     (case execute ex q [] of
        Inl m \<Rightarrow> Inl m
      | Inr r \<Rightarrow>
          (case fetched r of
             Inl m \<Rightarrow> Inl m
           | Inr [] \<Rightarrow> Inl (CHR 0x27 # ''NoneType' object is not subscriptable'')
           | Inr ([] # rows) \<Rightarrow> Inl (index_error ex)
           | Inr ((v # vs) # rows) \<Rightarrow> Inr v))"

text \<open>\<open>[{"table": row[0], "size": row[1]} for row in cursor.fetchall()]\<close>\<close>

definition table_record :: "string \<Rightarrow> sqlval list \<Rightarrow> string + sqlval pydict" where
  "table_record ie row =
     (if length row < 2 then Inl ie else Inr [(''table'', row ! 0), (''size'', row ! 1)])"

fun table_records :: "string \<Rightarrow> sqlval list list \<Rightarrow> string + sqlval pydict list" where
  "table_records ie [] = Inr []"
| "table_records ie (row # rows) =
     (case table_record ie row of
        Inl m \<Rightarrow> Inl m
      | Inr t \<Rightarrow>
          (case table_records ie rows of Inl m \<Rightarrow> Inl m | Inr ts \<Rightarrow> Inr (t # ts)))"

definition get_database_stats_body :: "executor \<Rightarrow> (string + payload) \<times> event list" where
  "get_database_stats_body ex =
     (case connect ex of
        Some m \<Rightarrow> (Inl m, [])
      | None \<Rightarrow>
          (case query_one ex size_sql of
             Inl m \<Rightarrow> (Inl m, [Opened, Executed size_sql []])
           | Inr db_size \<Rightarrow>
               (case query_one ex count_sql of
                  Inl m \<Rightarrow> (Inl m, [Opened, Executed size_sql [], Executed count_sql []])
                | Inr table_count \<Rightarrow>
                    (case query_one ex version_sql of
                       Inl m \<Rightarrow>
                         (Inl m,
                          [Opened, Executed size_sql [], Executed count_sql [],
                           Executed version_sql []])
                     | Inr pg_version \<Rightarrow>
                         (let sent = [Opened, Executed size_sql [], Executed count_sql [],
                                      Executed version_sql [], Executed largest_sql []]
                          in (case execute ex largest_sql [] of
                                Inl m \<Rightarrow> (Inl m, sent)
                              | Inr r \<Rightarrow>
                                  (case fetched r of
                                     Inl m \<Rightarrow> (Inl m, sent)
                                   | Inr rows \<Rightarrow>
                                       (case table_records (index_error ex) rows of
                                          Inl m \<Rightarrow> (Inl m, sent)
                                        | Inr largest_tables \<Rightarrow>
                                            (case close ex of
                                               Some m \<Rightarrow> (Inl m, sent)
                                             | None \<Rightarrow>
                                                 (Inr (Stats
                                                    [(''database_size'', Scalar db_size),
                                                     (''table_count'', Scalar table_count),
                                                     (''postgres_version'', Scalar pg_version),
                                                     (''largest_tables'', Records largest_tables)]),
                                                  sent @ [Closed]))))))))))"

definition get_database_stats :: "executor \<Rightarrow> payload \<times> event list" where
  "get_database_stats ex =
     (case get_database_stats_body ex of (r, events) \<Rightarrow> (catch r, events))"

section \<open>A PostgreSQL catalogue and the statements it is asked\<close>

text \<open>
  What the tools get back is decided by the text they send. The server is modelled as far
  as the statements of \<open>get_table_schema\<close> and \<open>get_database_stats\<close> need it: a
  \<open>SELECT\<close> over \<open>information_schema.tables\<close> or \<open>information_schema.columns\<close> (or
  over nothing) with equality conditions, one numeric \<open>ORDER BY\<close> key and a \<open>LIMIT\<close>,
  read from the statement text. A row of \<open>information_schema.columns\<close>:
\<close>

record column_info =
  col_schema :: string
  col_table :: string
  col_name :: string
  col_position :: nat
  col_type :: string
  col_nullable :: string
  col_default :: "string option"

text \<open>
  The catalogue: the rows of \<open>information_schema.columns\<close>, the rows
  \<open>(table_schema, table_name)\<close> of \<open>information_schema.tables\<close>, what
  \<open>pg_total_relation_size(quote_ident(name))\<close> and \<open>pg_size_pretty\<close> compute, the name
  and the size of the database, the version string, and the answers to the statements
  that are not modelled.
\<close>

record database =
  db_columns :: "column_info list"
  db_tables :: "(string \<times> string) list"
  relation_size :: "string \<Rightarrow> nat"
  size_pretty :: "nat \<Rightarrow> string"
  database_name :: string
  database_size :: nat
  server_version :: string
  other_statements :: "string \<Rightarrow> string list \<Rightarrow> string + reply"

subsection \<open>Reading a statement\<close>

text \<open>The words of a statement, separated by blanks and line ends.\<close>

definition blank :: "char \<Rightarrow> bool" where
  "blank c = (c = CHR '' '' \<or> c = CHR 0x0A \<or> c = CHR 0x09 \<or> c = CHR 0x0D)"

fun words_of :: "string \<Rightarrow> string \<Rightarrow> string list" where
  "words_of cur [] = (if cur = [] then [] else [cur])"
| "words_of cur (c # cs) =
     (if blank c then (if cur = [] then words_of [] cs else cur # words_of [] cs)
      else words_of (cur @ [c]) cs)"

text \<open>Keywords are recognised in any case.\<close>

definition keyword :: "string \<Rightarrow> string \<Rightarrow> bool" where
  "keyword k w = (lower w = k)"

definition clause_start :: "string \<Rightarrow> bool" where
  "clause_start w =
     (keyword ''from'' w \<or> keyword ''where'' w \<or> keyword ''order'' w \<or> keyword ''limit'' w)"

text \<open>An expression: a column, a quoted literal, the placeholder \<open>%s\<close>, \<open>*\<close>, or a
  function applied to nothing or to one expression.\<close>

datatype expr = Column string | Literal string | Parameter | Star
  | Call0 string | Call1 string expr

definition name_char :: "char \<Rightarrow> bool" where
  "name_char c =
     (let n = (of_char c :: nat)
      in (97 \<le> n \<and> n \<le> 122) \<or> (65 \<le> n \<and> n \<le> 90) \<or> (48 \<le> n \<and> n \<le> 57)
         \<or> c = CHR ''_'')"

fun parse_expr :: "nat \<Rightarrow> string \<Rightarrow> expr option" where
  "parse_expr 0 s = None"
| "parse_expr (Suc fuel) s =
     (if s = ''*'' then Some Star
      else if s = ''%s'' then Some Parameter
      else if 2 \<le> length s \<and> hd s = CHR 0x27 \<and> last s = CHR 0x27
      then Some (Literal (butlast (tl s)))
      else if CHR ''('' \<in> set s
      then (if last s = CHR '')''
            then (let f = takeWhile (\<lambda>c. c \<noteq> CHR ''('') s;
                      inner = butlast (tl (dropWhile (\<lambda>c. c \<noteq> CHR ''('') s))
                  in if f = [] \<or> \<not> list_all name_char f then None
                     else if inner = [] then Some (Call0 f)
                     else (case parse_expr fuel inner of
                             None \<Rightarrow> None
                           | Some e \<Rightarrow> Some (Call1 f e)))
            else None)
      else if s \<noteq> [] \<and> list_all name_char s then Some (Column s)
      else None)"

definition expression :: "string \<Rightarrow> expr option" where
  "expression s = parse_expr (Suc (length s)) s"

text \<open>The name PostgreSQL gives to an output column without alias.\<close>

fun default_name :: "expr \<Rightarrow> string" where
  "default_name (Column c) = c"
| "default_name (Call0 f) = f"
| "default_name (Call1 f e) = f"
| "default_name e = ''?column?''"

definition without_comma :: "string \<Rightarrow> string" where
  "without_comma w = (if w \<noteq> [] \<and> last w = CHR '','' then butlast w else w)"

text \<open>The select list: expressions separated by commas, each with an optional
  \<open>as alias\<close>.\<close>

fun parse_items :: "string list \<Rightarrow> (expr \<times> string) list option" where
  "parse_items [] = Some []"
| "parse_items [w] =
     (case expression (without_comma w) of
        None \<Rightarrow> None
      | Some e \<Rightarrow> Some [(e, default_name e)])"
| "parse_items (w # a # ws) =
     (case expression (without_comma w) of
        None \<Rightarrow> None
      | Some e \<Rightarrow>
          (if keyword ''as'' a
           then (case ws of
                   [] \<Rightarrow> None
                 | alias # rest \<Rightarrow>
                     (case parse_items rest of
                        None \<Rightarrow> None
                      | Some others \<Rightarrow> Some ((e, without_comma alias) # others)))
           else (case parse_items (a # ws) of
                   None \<Rightarrow> None
                 | Some others \<Rightarrow> Some ((e, default_name e) # others))))"

text \<open>The conditions of \<open>WHERE\<close>: \<open>column = operand\<close>, joined by \<open>AND\<close>.\<close>

fun parse_conditions :: "string list \<Rightarrow> (string \<times> expr) list option" where
  "parse_conditions [c, eq, v] =
     (if eq = ''='' \<and> c \<noteq> [] \<and> list_all name_char c
      then (case expression v of None \<Rightarrow> None | Some e \<Rightarrow> Some [(c, e)])
      else None)"
| "parse_conditions (c # eq # v # a # others) =
     (if eq = ''='' \<and> c \<noteq> [] \<and> list_all name_char c \<and> keyword ''and'' a
      then (case expression v of
              None \<Rightarrow> None
            | Some e \<Rightarrow>
                (case parse_conditions others of
                   None \<Rightarrow> None
                 | Some cs \<Rightarrow> Some ((c, e) # cs)))
      else None)"
| "parse_conditions ws = None"

fun digits_value :: "nat \<Rightarrow> string \<Rightarrow> nat option" where
  "digits_value acc [] = Some acc"
| "digits_value acc (c # cs) =
     (let n = (of_char c :: nat)
      in if 48 \<le> n \<and> n \<le> 57 then digits_value (10 * acc + (n - 48)) cs else None)"

definition number :: "string \<Rightarrow> nat option" where
  "number w = (if w = [] then None else digits_value 0 w)"

record select_stmt =
  st_items :: "(expr \<times> string) list"
  st_source :: "string option"
  st_conditions :: "(string \<times> expr) list"
  st_ordering :: "(expr \<times> bool) option"
  st_limit :: "nat option"

text \<open>\<open>FROM relation\<close>, if there is one.\<close>

definition parse_from :: "string list \<Rightarrow> (string option \<times> string list) option" where
  "parse_from ws =
     (case ws of
        [] \<Rightarrow> Some (None, [])
      | w # rest \<Rightarrow>
          (if keyword ''from'' w
           then (case rest of [] \<Rightarrow> None | t # rest' \<Rightarrow> Some (Some t, rest'))
           else Some (None, ws)))"

definition parse_where ::
  "string list \<Rightarrow> ((string \<times> expr) list \<times> string list) option" where
  "parse_where ws =
     (case ws of
        [] \<Rightarrow> Some ([], [])
      | w # rest \<Rightarrow>
          (if keyword ''where'' w
           then (case parse_conditions (takeWhile (\<lambda>x. \<not> clause_start x) rest) of
                   None \<Rightarrow> None
                 | Some cs \<Rightarrow> Some (cs, dropWhile (\<lambda>x. \<not> clause_start x) rest))
           else Some ([], ws)))"

text \<open>\<open>ORDER BY expression\<close>, ascending unless \<open>DESC\<close> follows.\<close>

definition parse_order ::
  "string list \<Rightarrow> ((expr \<times> bool) option \<times> string list) option" where
  "parse_order ws =
     (case ws of
        o1 # b # x # rest \<Rightarrow>
          (if keyword ''order'' o1
           then (if keyword ''by'' b
                 then (case expression x of
                         None \<Rightarrow> None
                       | Some e \<Rightarrow>
                           (case rest of
                              [] \<Rightarrow> Some (Some (e, False), [])
                            | d # rest' \<Rightarrow>
                                (if keyword ''desc'' d then Some (Some (e, True), rest')
                                 else if keyword ''asc'' d then Some (Some (e, False), rest')
                                 else Some (Some (e, False), rest))))
                 else None)
           else Some (None, ws))
      | _ \<Rightarrow> (if ws \<noteq> [] \<and> keyword ''order'' (hd ws) then None else Some (None, ws)))"

definition parse_limit :: "string list \<Rightarrow> (nat option \<times> string list) option" where
  "parse_limit ws =
     (case ws of
        [] \<Rightarrow> Some (None, [])
      | w # rest \<Rightarrow>
          (if keyword ''limit'' w
           then (case rest of
                   [] \<Rightarrow> None
                 | n # rest' \<Rightarrow>
                     (case number n of None \<Rightarrow> None | Some k \<Rightarrow> Some (Some k, rest')))
           else Some (None, ws)))"

definition parse_select :: "string \<Rightarrow> select_stmt option" where
  "parse_select q =
     (case words_of [] q of
        [] \<Rightarrow> None
      | w # ws \<Rightarrow>
          (if \<not> keyword ''select'' w then None
           else
             (case parse_items (takeWhile (\<lambda>x. \<not> clause_start x) ws) of
                None \<Rightarrow> None
              | Some its \<Rightarrow>
                  (if its = [] then None
                   else
                     (case parse_from (dropWhile (\<lambda>x. \<not> clause_start x) ws) of
                        None \<Rightarrow> None
                      | Some (src, r1) \<Rightarrow>
                          (case parse_where r1 of
                             None \<Rightarrow> None
                           | Some (conds, r2) \<Rightarrow>
                               (case parse_order r2 of
                                  None \<Rightarrow> None
                                | Some (ord, r3) \<Rightarrow>
                                    (case parse_limit r3 of
                                       None \<Rightarrow> None
                                     | Some (lim, r4) \<Rightarrow>
                                         (if r4 \<noteq> [] then None
                                          else Some \<lparr>st_items = its, st_source = src,
                                                     st_conditions = conds, st_ordering = ord,
                                                     st_limit = lim\<rparr>)))))))))"

subsection \<open>Answering a statement\<close>

type_synonym sqlrow = "(string \<times> sqlval) list"

definition tables_row :: "string \<times> string \<Rightarrow> sqlrow" where
  "tables_row t = [(''table_schema'', Text (fst t)), (''table_name'', Text (snd t))]"

definition columns_row :: "column_info \<Rightarrow> sqlrow" where
  "columns_row c =
     [(''table_schema'', Text (col_schema c)), (''table_name'', Text (col_table c)),
      (''column_name'', Text (col_name c)), (''ordinal_position'', Num (int (col_position c))),
      (''data_type'', Text (col_type c)), (''is_nullable'', Text (col_nullable c)),
      (''column_default'', (case col_default c of None \<Rightarrow> Null | Some d \<Rightarrow> Text d))]"

text \<open>The rows a statement reads; without \<open>FROM\<close>, one row with no columns.\<close>

definition relation :: "database \<Rightarrow> string option \<Rightarrow> sqlrow list option" where
  "relation db src =
     (case src of
        None \<Rightarrow> Some [[]]
      | Some t \<Rightarrow>
          (if t = ''information_schema.tables'' then Some (map tables_row (db_tables db))
           else if t = ''information_schema.columns'' then Some (map columns_row (db_columns db))
           else None))"

definition apply_function :: "database \<Rightarrow> string \<Rightarrow> sqlval \<Rightarrow> sqlval option" where
  "apply_function db f v =
     (case v of
        Text n \<Rightarrow>
          (if f = ''quote_ident'' then Some (Text n)
           else if f = ''pg_total_relation_size'' then Some (Num (int (relation_size db n)))
           else if f = ''pg_database_size'' \<and> n = database_name db
           then Some (Num (int (database_size db)))
           else None)
      | Num k \<Rightarrow>
          (if f = ''pg_size_pretty'' \<and> 0 \<le> k then Some (Text (size_pretty db (nat k)))
           else None)
      | _ \<Rightarrow> None)"

fun eval_expr :: "database \<Rightarrow> sqlrow \<Rightarrow> expr \<Rightarrow> sqlval option" where
  "eval_expr db row (Column c) = map_of row c"
| "eval_expr db row (Literal s) = Some (Text s)"
| "eval_expr db row Parameter = None"
| "eval_expr db row Star = None"
| "eval_expr db row (Call0 f) =
     (if f = ''version'' then Some (Text (server_version db))
      else if f = ''current_database'' then Some (Text (database_name db))
      else None)"
| "eval_expr db row (Call1 f e) =
     (case eval_expr db row e of None \<Rightarrow> None | Some v \<Rightarrow> apply_function db f v)"

text \<open>A parameter compared with a column of type \<open>name\<close> is cut to 63 bytes of UTF-8
  (a code point from 128 on takes two).\<close>

fun clip :: "nat \<Rightarrow> string \<Rightarrow> string" where
  "clip n [] = []"
| "clip n (c # cs) =
     (let w = (if (of_char c :: nat) < 128 then 1 else 2)
      in if w \<le> n then c # clip (n - w) cs else [])"

text \<open>Whether a row satisfies the conditions; the placeholders take the bound
  parameters in order. \<open>None\<close>: the statement is not answered by this model.\<close>

fun holds :: "database \<Rightarrow> string list \<Rightarrow> sqlrow \<Rightarrow> (string \<times> expr) list \<Rightarrow> bool option" where
  "holds db ps row [] = (if ps = [] then Some True else None)"
| "holds db ps row ((c, Parameter) # cs) =
     (case ps of
        [] \<Rightarrow> None
      | p # ps' \<Rightarrow>
          (case map_of row c of
             Some (Text v) \<Rightarrow>
               (case holds db ps' row cs of
                  None \<Rightarrow> None
                | Some b \<Rightarrow> Some (v = clip 63 p \<and> b))
           | _ \<Rightarrow> None))"
| "holds db ps row ((c, e) # cs) =
     (case map_of row c of
        None \<Rightarrow> None
      | Some v \<Rightarrow>
          (case eval_expr db row e of
             None \<Rightarrow> None
           | Some w \<Rightarrow>
               (case holds db ps row cs of
                  None \<Rightarrow> None
                | Some b \<Rightarrow> Some (v = w \<and> b))))"

fun keep :: "database \<Rightarrow> string list \<Rightarrow> (string \<times> expr) list \<Rightarrow> sqlrow list \<Rightarrow> sqlrow list option" where
  "keep db ps conds [] = Some []"
| "keep db ps conds (row # rows) =
     (case holds db ps row conds of
        None \<Rightarrow> None
      | Some b \<Rightarrow>
          (case keep db ps conds rows of
             None \<Rightarrow> None
           | Some kept \<Rightarrow> Some (if b then row # kept else kept)))"

fun parameter_count :: "(string \<times> expr) list \<Rightarrow> nat" where
  "parameter_count [] = 0"
| "parameter_count ((c, Parameter) # cs) = Suc (parameter_count cs)"
| "parameter_count ((c, e) # cs) = parameter_count cs"

text \<open>The rows that pass \<open>WHERE\<close>, in the order of the catalogue.\<close>

definition selected :: "database \<Rightarrow> select_stmt \<Rightarrow> string list \<Rightarrow> sqlrow list option" where
  "selected db st ps =
     (if length ps \<noteq> parameter_count (st_conditions st) then None
      else (case relation db (st_source st) of
              None \<Rightarrow> None
            | Some rows \<Rightarrow> keep db ps (st_conditions st) rows))"

text \<open>The sort key of a row: only numeric keys are modelled.\<close>

definition keyed :: "database \<Rightarrow> expr \<Rightarrow> sqlrow \<Rightarrow> bool" where
  "keyed db e row = (case eval_expr db row e of Some (Num k) \<Rightarrow> True | _ \<Rightarrow> False)"

definition key_of :: "database \<Rightarrow> expr \<Rightarrow> sqlrow \<Rightarrow> int" where
  "key_of db e row = (case eval_expr db row e of Some (Num k) \<Rightarrow> k | _ \<Rightarrow> 0)"

text \<open>Whether rows are in the order that \<open>ORDER BY\<close> asks for. Rows with equal keys may
  come in any order, and without \<open>ORDER BY\<close> every order is allowed.\<close>

definition in_order :: "database \<Rightarrow> select_stmt \<Rightarrow> sqlrow list \<Rightarrow> bool" where
  "in_order db st rows =
     (case st_ordering st of
        None \<Rightarrow> True
      | Some (e, descending) \<Rightarrow>
          list_all (keyed db e) rows
          \<and> (if descending then sorted_wrt (\<lambda>a b. key_of db e b \<le> key_of db e a) rows
             else sorted_wrt (\<lambda>a b. key_of db e a \<le> key_of db e b) rows))"

text \<open>One such order: a stable sort, rows with equal keys staying in catalogue order.\<close>

definition arrange :: "database \<Rightarrow> select_stmt \<Rightarrow> sqlrow list \<Rightarrow> sqlrow list option" where
  "arrange db st rows =
     (case st_ordering st of
        None \<Rightarrow> Some rows
      | Some (e, descending) \<Rightarrow>
          (if list_all (keyed db e) rows
           then Some (if descending then sort_key (\<lambda>row. - key_of db e row) rows
                      else sort_key (key_of db e) rows)
           else None))"

definition cut_limit :: "select_stmt \<Rightarrow> 'a list \<Rightarrow> 'a list" where
  "cut_limit st rows = (case st_limit st of None \<Rightarrow> rows | Some n \<Rightarrow> take n rows)"

fun project_row :: "database \<Rightarrow> (expr \<times> string) list \<Rightarrow> sqlrow \<Rightarrow> sqlval list option" where
  "project_row db [] row = Some []"
| "project_row db ((e, n) # its) row =
     (case eval_expr db row e of
        None \<Rightarrow> None
      | Some v \<Rightarrow>
          (case project_row db its row of None \<Rightarrow> None | Some vs \<Rightarrow> Some (v # vs)))"

fun project :: "database \<Rightarrow> (expr \<times> string) list \<Rightarrow> sqlrow list \<Rightarrow> sqlval list list option" where
  "project db its [] = Some []"
| "project db its (row # rows) =
     (case project_row db its row of
        None \<Rightarrow> None
      | Some vs \<Rightarrow>
          (case project db its rows of None \<Rightarrow> None | Some rest \<Rightarrow> Some (vs # rest)))"

definition counting :: "select_stmt \<Rightarrow> bool" where
  "counting st = (map fst (st_items st) = [Call1 ''count'' Star])"

text \<open>The rows one server gives for a statement (\<open>None\<close>: not modelled).\<close>

definition run_select :: "database \<Rightarrow> string \<Rightarrow> string list \<Rightarrow> sqlval list list option" where
  "run_select db q ps =
     (case parse_select q of
        None \<Rightarrow> None
      | Some st \<Rightarrow>
          (case selected db st ps of
             None \<Rightarrow> None
           | Some sel \<Rightarrow>
               (if counting st then Some (cut_limit st [[Num (int (length sel))]])
                else (case arrange db st sel of
                        None \<Rightarrow> None
                      | Some ordered \<Rightarrow> project db (st_items st) (cut_limit st ordered)))))"

text \<open>The rows any server may give for it: the selected rows in some order that
  \<open>ORDER BY\<close> allows, cut by \<open>LIMIT\<close>, then projected.\<close>

definition answers :: "database \<Rightarrow> string \<Rightarrow> string list \<Rightarrow> sqlval list list \<Rightarrow> bool" where
  "answers db q ps rows =
     (case parse_select q of
        None \<Rightarrow> False
      | Some st \<Rightarrow>
          (case selected db st ps of
             None \<Rightarrow> False
           | Some sel \<Rightarrow>
               (if counting st then rows = cut_limit st [[Num (int (length sel))]]
                else (\<exists>ordered. mset ordered = mset sel \<and> in_order db st ordered
                        \<and> project db (st_items st) (cut_limit st ordered) = Some rows))))"

definition column_names :: "string \<Rightarrow> string list" where
  "column_names q = (case parse_select q of None \<Rightarrow> [] | Some st \<Rightarrow> map snd (st_items st))"

definition postgres_execute :: "database \<Rightarrow> string \<Rightarrow> string list \<Rightarrow> string + reply" where
  "postgres_execute db q ps =
     (case run_select db q ps of
        None \<Rightarrow> other_statements db q ps
      | Some rows \<Rightarrow> Inr \<lparr>fetched = Inr rows, description = Some (column_names q)\<rparr>)"

text \<open>A reachable server on that catalogue.\<close>

definition postgres :: "database \<Rightarrow> executor" where
  "postgres db =
     \<lparr>connect = None, execute = postgres_execute db, close = None,
      index_error = ''list index out of range''\<rparr>"


text \<open>The number of columns of table \<open>t\<close> in schema \<open>public\<close>.\<close>

definition public_column_count :: "database \<Rightarrow> string \<Rightarrow> nat" where
  "public_column_count db t =
     length (filter (\<lambda>c. col_schema c = ''public'' \<and> col_table c = t) (db_columns db))"


section \<open>Sample drivers and sample catalogues\<close>

text \<open>A server that cannot be reached, one that rejects every statement, and one that
  answers every statement with the same columns and rows.\<close>

definition unreachable :: executor where
  "unreachable =
     \<lparr>connect = Some ''connection refused'', execute = (\<lambda>q ps. Inl ''not connected''),
      close = None, index_error = ''list index out of range''\<rparr>"

definition rejecting :: executor where
  "rejecting =
     \<lparr>connect = None, execute = (\<lambda>q ps. Inl ''relation does not exist''),
      close = None, index_error = ''list index out of range''\<rparr>"

definition answering :: "string list \<Rightarrow> sqlval list list \<Rightarrow> executor" where
  "answering cols rows =
     \<lparr>connect = None,
      execute = (\<lambda>q ps. Inr \<lparr>fetched = Inr rows, description = Some cols\<rparr>),
      close = None, index_error = ''list index out of range''\<rparr>"

text \<open>Table \<open>widgets(id, name)\<close> in schema \<open>public\<close> and a table of the same name, with one
  column, in schema \<open>audit\<close>.\<close>

definition shop :: database where
  "shop =
     \<lparr>db_columns =
        [\<lparr>col_schema = ''public'', col_table = ''widgets'', col_name = ''id'',
          col_position = 1, col_type = ''integer'', col_nullable = ''NO'',
          col_default = None\<rparr>,
         \<lparr>col_schema = ''public'', col_table = ''widgets'', col_name = ''name'',
          col_position = 2, col_type = ''text'', col_nullable = ''YES'',
          col_default = None\<rparr>,
         \<lparr>col_schema = ''audit'', col_table = ''widgets'', col_name = ''changed_at'',
          col_position = 1, col_type = ''timestamp'', col_nullable = ''NO'',
          col_default = Some ''now()''\<rparr>],
      db_tables = [(''public'', ''widgets''), (''audit'', ''widgets'')],
      relation_size = (\<lambda>n. 8192),
      size_pretty = (\<lambda>n. ''8192 bytes''),
      database_name = ''shop'',
      database_size = 8192,
      server_version = ''PostgreSQL 16.1'',
      other_statements = (\<lambda>q ps. Inl ''syntax error'')\<rparr>"


section \<open>Facts about the sample inputs\<close>

lemma sample_queries:
  "\<not> startswith (lower (strip ''DROP TABLE widgets'')) ''select''"
  "startswith (lower (strip ''  SeLeCT 1'')) ''select''"
  "startswith (lower (strip ''SELECT * FROM missing'')) ''select''"
  by code_simp+

section \<open>The SELECT gate of execute_query\<close>

text \<open>
  C2, as stated: every query that starts with \<open>select\<close> passes the check and is sent to
  the executor. It fails when the server cannot be reached: the query passes the check,
  the connection is not opened and nothing is sent.
\<close>

theorem execute_query_select_gate_counterexample:
  "startswith (lower (strip ''  SeLeCT 1'')) ''select''
   \<and> Executed ''  SeLeCT 1'' [] \<notin> set (snd (execute_query unreachable ''  SeLeCT 1''))"
  by (simp add: sample_queries execute_query_def execute_query_body_def unreachable_def)

text \<open>
  C2, amended. A query that, trimmed and lower-cased, does not start with \<open>select\<close> yields
  exactly \<open>{"error": "Only SELECT queries are allowed."}\<close> with no connection opened and
  nothing executed. A query that does start with \<open>select\<close> passes the check. Then, when
  the connection opens, the query text itself is sent to the executor with no bound
  parameters, and what the executor answers decides the result: its error is returned as
  the error payload, its rows as the result set. When the connection cannot be opened,
  nothing is sent and the error of the connection is returned.
\<close>

theorem execute_query_select_gate:
  "(\<not> startswith (lower (strip query)) ''select'' \<longrightarrow>
      execute_query ex query = (ErrorPayload ''Only SELECT queries are allowed.'', []))
   \<and> (startswith (lower (strip query)) ''select'' \<longrightarrow>
        (connect ex = None \<longrightarrow>
           (\<exists>rest. snd (execute_query ex query) = Opened # Executed query [] # rest)
           \<and> (\<forall>m. execute ex query [] = Inl m \<longrightarrow>
                 execute_query ex query = (ErrorPayload m, [Opened, Executed query []]))
           \<and> (\<forall>r rows cols rs.
                 execute ex query [] = Inr r \<longrightarrow> fetched r = Inr rows \<longrightarrow>
                 description r = Some cols \<longrightarrow> close ex = None \<longrightarrow>
                 format_results (index_error ex) cols rows = Inr rs \<longrightarrow>
                 execute_query ex query = (ResultSet rs, [Opened, Executed query [], Closed])))
        \<and> (\<forall>m. connect ex = Some m \<longrightarrow> execute_query ex query = (ErrorPayload m, [])))"
proof (intro conjI impI allI)
  assume "\<not> startswith (lower (strip query)) ''select''"
  then show "execute_query ex query = (ErrorPayload ''Only SELECT queries are allowed.'', [])"
    by (simp add: execute_query_def execute_query_body_def catch_def)
next
  assume "startswith (lower (strip query)) ''select''" "connect ex = None"
  then show "\<exists>rest. snd (execute_query ex query) = Opened # Executed query [] # rest"
    by (auto simp: execute_query_def execute_query_body_def split: option.splits sum.splits)
next
  fix m
  assume "startswith (lower (strip query)) ''select''" "connect ex = None"
    "execute ex query [] = Inl m"
  then show "execute_query ex query = (ErrorPayload m, [Opened, Executed query []])"
    by (simp add: execute_query_def execute_query_body_def catch_def)
next
  fix r rows cols rs
  assume "startswith (lower (strip query)) ''select''" "connect ex = None"
    "execute ex query [] = Inr r" "fetched r = Inr rows" "description r = Some cols"
    "close ex = None" "format_results (index_error ex) cols rows = Inr rs"
  then show "execute_query ex query = (ResultSet rs, [Opened, Executed query [], Closed])"
    by (simp add: execute_query_def execute_query_body_def column_names_of_def catch_def)
next
  fix m
  assume "startswith (lower (strip query)) ''select''" "connect ex = Some m"
  then show "execute_query ex query = (ErrorPayload m, [])"
    by (simp add: execute_query_def execute_query_body_def catch_def)
qed

theorem execute_query_select_gate_witness:
  "\<not> startswith (lower (strip ''DROP TABLE widgets'')) ''select''
   \<and> execute_query rejecting ''DROP TABLE widgets''
       = (ErrorPayload ''Only SELECT queries are allowed.'', [])
   \<and> startswith (lower (strip ''  SeLeCT 1'')) ''select''
   \<and> connect rejecting = None
   \<and> execute rejecting ''  SeLeCT 1'' [] = Inl ''relation does not exist''
   \<and> execute_query rejecting ''  SeLeCT 1''
       = (ErrorPayload ''relation does not exist'', [Opened, Executed ''  SeLeCT 1'' []])
   \<and> connect (answering [''n''] [[Num 1]]) = None
   \<and> execute (answering [''n''] [[Num 1]]) ''  SeLeCT 1'' []
       = Inr \<lparr>fetched = Inr [[Num 1]], description = Some [''n'']\<rparr>
   \<and> execute_query (answering [''n''] [[Num 1]]) ''  SeLeCT 1''
       = (ResultSet [[(''n'', Num 1)]], [Opened, Executed ''  SeLeCT 1'' [], Closed])
   \<and> connect unreachable = Some ''connection refused''
   \<and> execute_query unreachable ''  SeLeCT 1'' = (ErrorPayload ''connection refused'', [])"
  using execute_query_select_gate [of "''DROP TABLE widgets''" rejecting]
        execute_query_select_gate [of "''  SeLeCT 1''" rejecting]
        execute_query_select_gate [of "''  SeLeCT 1''" "answering [''n''] [[Num 1]]"]
        execute_query_select_gate [of "''  SeLeCT 1''" unreachable]
  by (simp add: sample_queries rejecting_def unreachable_def answering_def)

section \<open>The statement built by filter_instances\<close>

text \<open>
  C1. The filters \<open>{"table_name": "widgets"}\<close> alone should give the unfiltered
  \<open>SELECT * FROM widgets\<close>, the key \<open>table_name\<close> being taken out before the clauses are
  built. The code builds the clauses first: the statement sent is
  \<open>SELECT * FROM widgets WHERE table_name = %s\<close> with the table name bound as a parameter.
\<close>

theorem filter_instances_table_name_clause:
  "build_filter_query [(''table_name'', ''widgets'')]
     = (Inr (''SELECT * FROM widgets WHERE table_name = %s'', [''widgets'']), [])
   \<and> filter_instances (answering [''id'', ''name''] []) [(''table_name'', ''widgets'')]
     = (ResultSet [], [],
        [Opened, Executed ''SELECT * FROM widgets WHERE table_name = %s'' [''widgets''],
         Closed])"
  by (simp add: build_filter_query_def dict_contains_def keys_def dict_pop_def
        filter_instances_def filter_instances_body_def answering_def column_names_of_def
        catch_def)

section \<open>The rows of get_table_schema\<close>

text \<open>
  C3. The rows of \<open>get_table_schema(T)\<close> should be the columns of table \<open>T\<close> in schema
  \<open>public\<close>. The statement selects by table name only: with a table \<open>widgets\<close> of two
  columns in \<open>public\<close> and a table \<open>widgets\<close> of one column in \<open>audit\<close>, the tool returns
  three records, the column of \<open>audit.widgets\<close> between the two of \<open>public.widgets\<close>.
\<close>

theorem get_table_schema_mixes_schemas:
  "fst (get_table_schema (postgres shop) ''widgets'')
     = ResultSet
         [[(''column_name'', Text ''id''), (''data_type'', Text ''integer''),
           (''is_nullable'', Text ''NO''), (''default_value'', Null)],
          [(''column_name'', Text ''changed_at''), (''data_type'', Text ''timestamp''),
           (''is_nullable'', Text ''NO''), (''default_value'', Text ''now()'')],
          [(''column_name'', Text ''name''), (''data_type'', Text ''text''),
           (''is_nullable'', Text ''YES''), (''default_value'', Null)]]
   \<and> public_column_count shop ''widgets'' = 2"
  by code_simp

section \<open>A missing table_name\<close>

text \<open>
  C7, as stated: filters without the key \<open>table_name\<close> always yield the error
  \<open>'table_name' is required in filters parameter\<close>. It fails when the server cannot be
  reached: the connection is opened before the filters are looked at, and its error is
  the one returned.
\<close>

theorem filter_instances_missing_table_name_counterexample:
  "\<not> dict_contains ''table_name'' [(''region'', ''us-west-1'')]
   \<and> fst (filter_instances unreachable [(''region'', ''us-west-1'')])
       \<noteq> ErrorPayload (CHR 0x27 # ''table_name' is required in filters parameter'')"
  by (simp add: dict_contains_def keys_def filter_instances_def filter_instances_body_def
        unreachable_def catch_def)

text \<open>
  C7, amended. For filters without the key \<open>table_name\<close>: when the connection opens,
  \<open>filter_instances\<close> returns exactly \<open>{"error": "'table_name' is required in filters
  parameter"}\<close>; when it does not, the error of the connection is returned. Either way no
  statement is executed and the filters are left as they were.
\<close>

theorem filter_instances_missing_table_name:
  "\<not> dict_contains ''table_name'' filters \<Longrightarrow>
     (connect ex = None \<longrightarrow>
        filter_instances ex filters
          = (ErrorPayload (CHR 0x27 # ''table_name' is required in filters parameter''),
             filters, [Opened]))
     \<and> (\<forall>m. connect ex = Some m \<longrightarrow>
          filter_instances ex filters = (ErrorPayload m, filters, []))"
  by (simp add: filter_instances_def filter_instances_body_def build_filter_query_def
        catch_def)

theorem filter_instances_missing_table_name_witness:
  "\<not> dict_contains ''table_name'' [(''region'', ''us-west-1'')]
   \<and> connect rejecting = None \<and> connect unreachable = Some ''connection refused''
   \<and> filter_instances rejecting [(''region'', ''us-west-1'')]
       = (ErrorPayload (CHR 0x27 # ''table_name' is required in filters parameter''),
          [(''region'', ''us-west-1'')], [Opened])
   \<and> filter_instances unreachable [(''region'', ''us-west-1'')]
       = (ErrorPayload ''connection refused'', [(''region'', ''us-west-1'')], [])"
  using filter_instances_missing_table_name [of "[(''region'', ''us-west-1'')]" rejecting]
        filter_instances_missing_table_name [of "[(''region'', ''us-west-1'')]" unreachable]
  by (simp add: dict_contains_def keys_def rejecting_def unreachable_def)

section \<open>The connection after a failure\<close>

text \<open>
  C9. A failure after the connection was opened should still release the connection.
  \<open>conn.close()\<close> is only on the path without failure: when the executor rejects the
  statement, the run of \<open>execute_query\<close> ends with the error payload and no \<open>Closed\<close>
  event, and so does the run of \<open>filter_instances\<close>.
\<close>

theorem execute_query_leaves_connection_open:
  "execute_query rejecting ''SELECT * FROM missing''
     = (ErrorPayload ''relation does not exist'',
        [Opened, Executed ''SELECT * FROM missing'' []])
   \<and> Closed \<notin> set (snd (execute_query rejecting ''SELECT * FROM missing''))
   \<and> Closed \<notin> set (snd (snd (filter_instances rejecting [(''table_name'', ''missing'')])))"
  by (simp add: execute_query_def execute_query_body_def rejecting_def catch_def
        sample_queries filter_instances_def filter_instances_body_def build_filter_query_def
        dict_contains_def keys_def dict_pop_def)

section \<open>Every record has the columns of the executor\<close>

lemma keys_dict_set:
  "keys (dict_set k v d) = (if k \<in> set (keys d) then keys d else keys d @ [k])"
  by (induction d) (force simp: keys_def)+

lemma map_of_dict_set: "map_of (dict_set k v d) = (map_of d)(k \<mapsto> v)"
  by (induction d) (auto simp: fun_eq_iff)

lemma remdups_snoc: "remdups (xs @ [c]) = filter (\<lambda>x. x \<noteq> c) (remdups xs) @ [c]"
  by (induction xs) auto

lemma first_seen_Cons:
  "rev (remdups (rev (c # cs))) = c # filter (\<lambda>x. x \<noteq> c) (rev (remdups (rev cs)))"
  by (simp add: remdups_snoc rev_filter)

lemma make_record_keys:
  "make_record ie cols row i built = Inr r \<Longrightarrow>
     keys r = keys built @ filter (\<lambda>c. c \<notin> set (keys built)) (rev (remdups (rev cols)))"
proof (induction cols arbitrary: i built)
  case Nil
  then show ?case by simp
next
  case (Cons c cs)
  from Cons.prems have inside: "i < length row"
    and rest: "make_record ie cs row (Suc i) (dict_set c (row ! i) built) = Inr r"
    by (auto split: if_splits)
  note step = Cons.IH [OF rest]
  show ?case
  proof (cases "c \<in> set (keys built)")
    case True
    then have "filter (\<lambda>x. x \<notin> set (keys built)) (filter (\<lambda>x. x \<noteq> c) (rev (remdups (rev cs))))
                 = filter (\<lambda>x. x \<notin> set (keys built)) (rev (remdups (rev cs)))"
      by (auto intro: filter_cong)
    with True step show ?thesis
      by (simp only: first_seen_Cons keys_dict_set) simp
  next
    case False
    have "filter (\<lambda>x. x \<notin> set (keys built @ [c])) (rev (remdups (rev cs)))
            = filter (\<lambda>x. x \<notin> set (keys built)) (filter (\<lambda>x. x \<noteq> c) (rev (remdups (rev cs))))"
      by (auto intro: filter_cong)
    with False step show ?thesis
      by (simp only: first_seen_Cons keys_dict_set) simp
  qed
qed

lemma make_record_other:
  "make_record ie cols row i built = Inr r \<Longrightarrow> c \<notin> set cols \<Longrightarrow>
     map_of r c = map_of built c"
  by (induction cols arbitrary: i built) (auto split: if_splits simp: map_of_dict_set)

lemma make_record_value:
  "make_record ie cols row i built = Inr r \<Longrightarrow> j < length cols \<Longrightarrow>
     cols ! j \<notin> set (drop (Suc j) cols) \<Longrightarrow> map_of r (cols ! j) = Some (row ! (i + j))"
proof (induction cols arbitrary: i built j)
  case Nil
  then show ?case by simp
next
  case (Cons c cs)
  from Cons.prems(1) have rest:
    "make_record ie cs row (Suc i) (dict_set c (row ! i) built) = Inr r"
    by (auto split: if_splits)
  show ?case
  proof (cases j)
    case 0
    with Cons.prems(3) have "c \<notin> set cs" by simp
    from make_record_other [OF rest this] 0 show ?thesis
      by (simp add: map_of_dict_set)
  next
    case (Suc n)
    with Cons.prems have "n < length cs" "cs ! n \<notin> set (drop (Suc n) cs)" by simp_all
    from Cons.IH [OF rest this] Suc show ?thesis by simp
  qed
qed

lemma make_record_succeeds:
  "i + length cols \<le> length row \<Longrightarrow> \<exists>r. make_record ie cols row i built = Inr r"
  by (induction cols arbitrary: i built) auto

lemma format_results_succeeds:
  "\<forall>row \<in> set rows. length cols \<le> length row \<Longrightarrow> \<exists>rs. format_results ie cols rows = Inr rs"
proof (induction rows)
  case Nil
  then show ?case by simp
next
  case (Cons row rows)
  then obtain rs where "format_results ie cols rows = Inr rs" by auto
  moreover obtain r where "make_record ie cols row 0 [] = Inr r"
    using make_record_succeeds [of 0 cols row ie "[]"] Cons.prems by auto
  ultimately show ?case by simp
qed

lemma format_results_rows:
  "format_results ie cols rows = Inr rs \<Longrightarrow>
     length rs = length rows
     \<and> (\<forall>n < length rows. make_record ie cols (rows ! n) 0 [] = Inr (rs ! n))"
proof (induction rows arbitrary: rs)
  case Nil
  then show ?case by simp
next
  case (Cons row rows)
  then obtain r rs' where r: "make_record ie cols row 0 [] = Inr r"
    and rs': "format_results ie cols rows = Inr rs'" and rs: "rs = r # rs'"
    by (auto split: sum.splits)
  from Cons.IH [OF rs'] r rs show ?case
    by (auto simp: nth_Cons split: nat.splits)
qed

lemma format_results_records:
  assumes "\<forall>row \<in> set rows. length cols \<le> length row"
  shows "\<exists>rs. format_results ie cols rows = Inr rs
           \<and> length rs = length rows
           \<and> (\<forall>n < length rows.
                 keys (rs ! n) = rev (remdups (rev cols))
                 \<and> set (keys (rs ! n)) = set cols
                 \<and> (distinct cols \<longrightarrow> keys (rs ! n) = cols)
                 \<and> (\<forall>j < length cols. cols ! j \<notin> set (drop (Suc j) cols) \<longrightarrow>
                       map_of (rs ! n) (cols ! j) = Some (rows ! n ! j)))"
proof -
  from format_results_succeeds [OF assms] obtain rs
    where ok: "format_results ie cols rows = Inr rs" by blast
  from format_results_rows [OF ok] have len: "length rs = length rows"
    and each: "\<And>n. n < length rows \<Longrightarrow> make_record ie cols (rows ! n) 0 [] = Inr (rs ! n)"
    by auto
  have "keys (rs ! n) = rev (remdups (rev cols))
          \<and> set (keys (rs ! n)) = set cols
          \<and> (distinct cols \<longrightarrow> keys (rs ! n) = cols)
          \<and> (\<forall>j < length cols. cols ! j \<notin> set (drop (Suc j) cols) \<longrightarrow>
                map_of (rs ! n) (cols ! j) = Some (rows ! n ! j))" if n: "n < length rows" for n
  proof -
    note made = each [OF n]
    have k: "keys (rs ! n) = rev (remdups (rev cols))"
      using make_record_keys [OF made] by (simp add: keys_def)
    have d: "distinct cols \<Longrightarrow> rev (remdups (rev cols)) = cols"
      by (simp add: distinct_remdups_id)
    have v: "map_of (rs ! n) (cols ! j) = Some (rows ! n ! j)"
      if "j < length cols" "cols ! j \<notin> set (drop (Suc j) cols)" for j
      using make_record_value [OF made that] by simp
    from k d v show ?thesis by simp
  qed
  with ok len show ?thesis by blast
qed

text \<open>
  C5. For column names \<open>cols\<close> and rows each at least as long as \<open>cols\<close>, normalisation
  succeeds and gives one record per row, in the order of the rows. Every record has the
  same keys, in the order in which the executor reported the columns (a column name that
  is reported twice is one key, at the place of its first occurrence, as in a Python
  dictionary), whatever the values are, \<open>Null\<close> included; under the key of column \<open>j\<close> it
  holds field \<open>j\<close> of its row (for a repeated name, the field of the last occurrence).
  These records are what \<open>execute_query\<close> and \<open>filter_instances\<close> return when the executor
  answers their statement with these columns and rows.
\<close>

theorem format_results_uniform:
  assumes "\<forall>row \<in> set rows. length cols \<le> length row"
  shows "\<exists>rs. format_results (index_error ex) cols rows = Inr rs
           \<and> length rs = length rows
           \<and> (\<forall>n < length rows.
                 keys (rs ! n) = rev (remdups (rev cols))
                 \<and> set (keys (rs ! n)) = set cols
                 \<and> (distinct cols \<longrightarrow> keys (rs ! n) = cols)
                 \<and> (\<forall>j < length cols. cols ! j \<notin> set (drop (Suc j) cols) \<longrightarrow>
                       map_of (rs ! n) (cols ! j) = Some (rows ! n ! j)))
           \<and> (startswith (lower (strip q)) ''select'' \<longrightarrow> connect ex = None \<longrightarrow>
                 close ex = None \<longrightarrow> execute ex q [] = Inr r \<longrightarrow> fetched r = Inr rows \<longrightarrow>
                 description r = Some cols \<longrightarrow>
                 execute_query ex q = (ResultSet rs, [Opened, Executed q [], Closed]))
           \<and> (connect ex = None \<longrightarrow> close ex = None \<longrightarrow>
                 fst (build_filter_query f) = Inr (text, ps) \<longrightarrow>
                 execute ex text ps = Inr r' \<longrightarrow> fetched r' = Inr rows \<longrightarrow>
                 description r' = Some cols \<longrightarrow>
                 filter_instances ex f
                   = (ResultSet rs, snd (build_filter_query f),
                      [Opened, Executed text ps, Closed]))"
proof -
  from format_results_records [OF assms, of "index_error ex"] obtain rs
    where ok: "format_results (index_error ex) cols rows = Inr rs"
      and len: "length rs = length rows"
      and each: "\<forall>n < length rows.
                 keys (rs ! n) = rev (remdups (rev cols))
                 \<and> set (keys (rs ! n)) = set cols
                 \<and> (distinct cols \<longrightarrow> keys (rs ! n) = cols)
                 \<and> (\<forall>j < length cols. cols ! j \<notin> set (drop (Suc j) cols) \<longrightarrow>
                       map_of (rs ! n) (cols ! j) = Some (rows ! n ! j))"
    by blast
  have query: "execute_query ex q = (ResultSet rs, [Opened, Executed q [], Closed])"
    if "startswith (lower (strip q)) ''select''" "connect ex = None" "close ex = None"
      "execute ex q [] = Inr r" "fetched r = Inr rows" "description r = Some cols"
    using that ok
    by (simp add: execute_query_def execute_query_body_def column_names_of_def catch_def)
  have filtered: "filter_instances ex f
                   = (ResultSet rs, snd (build_filter_query f),
                      [Opened, Executed text ps, Closed])"
    if "connect ex = None" "close ex = None" "fst (build_filter_query f) = Inr (text, ps)"
      "execute ex text ps = Inr r'" "fetched r' = Inr rows" "description r' = Some cols"
  proof -
    obtain built after where b: "build_filter_query f = (built, after)"
      by (cases "build_filter_query f")
    with that(3) have "built = Inr (text, ps)" by simp
    with b that ok show ?thesis
      by (simp add: filter_instances_def filter_instances_body_def column_names_of_def
            catch_def)
  qed
  show ?thesis
  proof (intro exI [of _ rs] conjI)
    show "format_results (index_error ex) cols rows = Inr rs" by (fact ok)
    show "length rs = length rows" by (fact len)
    show "\<forall>n < length rows.
                 keys (rs ! n) = rev (remdups (rev cols))
                 \<and> set (keys (rs ! n)) = set cols
                 \<and> (distinct cols \<longrightarrow> keys (rs ! n) = cols)
                 \<and> (\<forall>j < length cols. cols ! j \<notin> set (drop (Suc j) cols) \<longrightarrow>
                       map_of (rs ! n) (cols ! j) = Some (rows ! n ! j))" by (fact each)
    show "startswith (lower (strip q)) ''select'' \<longrightarrow> connect ex = None \<longrightarrow>
                 close ex = None \<longrightarrow> execute ex q [] = Inr r \<longrightarrow> fetched r = Inr rows \<longrightarrow>
                 description r = Some cols \<longrightarrow>
                 execute_query ex q = (ResultSet rs, [Opened, Executed q [], Closed])"
      using query by blast
    show "connect ex = None \<longrightarrow> close ex = None \<longrightarrow>
                 fst (build_filter_query f) = Inr (text, ps) \<longrightarrow>
                 execute ex text ps = Inr r' \<longrightarrow> fetched r' = Inr rows \<longrightarrow>
                 description r' = Some cols \<longrightarrow>
                 filter_instances ex f
                   = (ResultSet rs, snd (build_filter_query f),
                      [Opened, Executed text ps, Closed])"
      using filtered by blast
  qed
qed

theorem format_results_uniform_witness:
  "length [''id'', ''name''] \<le> length [Num 1, Null]
   \<and> length [''id'', ''name''] \<le> length [Num 2, Text ''b'']
   \<and> format_results ''list index out of range'' [''id'', ''name'']
        [[Num 1, Null], [Num 2, Text ''b'']]
       = Inr [[(''id'', Num 1), (''name'', Null)], [(''id'', Num 2), (''name'', Text ''b'')]]
   \<and> execute_query (answering [''id'', ''name''] [[Num 1, Null], [Num 2, Text ''b'']])
        ''SELECT * FROM missing''
       = (ResultSet [[(''id'', Num 1), (''name'', Null)],
                     [(''id'', Num 2), (''name'', Text ''b'')]],
          [Opened, Executed ''SELECT * FROM missing'' [], Closed])
   \<and> filter_instances (answering [''id'', ''name''] [[Num 1, Null], [Num 2, Text ''b'']])
        [(''table_name'', ''missing'')]
       = (ResultSet [[(''id'', Num 1), (''name'', Null)],
                     [(''id'', Num 2), (''name'', Text ''b'')]],
          [],
          [Opened, Executed ''SELECT * FROM missing WHERE table_name = %s'' [''missing''],
           Closed])"
  using format_results_uniform
          [of "[[Num 1, Null], [Num 2, Text ''b'']]" "[''id'', ''name'']"
              "answering [''id'', ''name''] [[Num 1, Null], [Num 2, Text ''b'']]"
              "''SELECT * FROM missing''"
              "\<lparr>fetched = Inr [[Num 1, Null], [Num 2, Text ''b'']],
                description = Some [''id'', ''name'']\<rparr>"
              "[(''table_name'', ''missing'')]"
              "''SELECT * FROM missing WHERE table_name = %s''" "[''missing'']"
              "\<lparr>fetched = Inr [[Num 1, Null], [Num 2, Text ''b'']],
                description = Some [''id'', ''name'']\<rparr>"]
  by (simp add: sample_queries answering_def build_filter_query_def dict_contains_def
        keys_def dict_pop_def)

section \<open>Filter values and the statement text\<close>

lemma where_clauses_keys:
  "map (\<lambda>(column, val). column @ '' = %s'') filters = map (\<lambda>k. k @ '' = %s'') (keys filters)"
  by (simp add: keys_def split_def)

lemma params_values: "map (\<lambda>(column, val). val) filters = map snd filters"
  by (simp add: split_def)

lemma dict_contains_map_of:
  "dict_contains k d \<longleftrightarrow> (\<exists>v. map_of d k = Some v)"
  by (auto simp: dict_contains_def keys_def weak_map_of_SomeI map_of_eq_None_iff
           dest: map_of_SomeD intro: rev_image_eqI)

lemma build_filter_query_present:
  assumes "map_of filters ''table_name'' = Some t"
  shows "build_filter_query filters
           = (Inr (''SELECT * FROM '' @ t @ '' WHERE ''
                     @ join '' AND '' (map (\<lambda>k. k @ '' = %s'') (keys filters)),
                   map snd filters),
              filter (\<lambda>kv. fst kv \<noteq> ''table_name'') filters)"
proof -
  from assms have present: "dict_contains ''table_name'' filters"
    by (auto simp: dict_contains_map_of)
  from assms have "filters \<noteq> []" by auto
  with assms present show ?thesis
    by (simp add: build_filter_query_def dict_pop_def where_clauses_keys params_values
          keys_def Let_def)
qed

lemma build_filter_query_absent:
  "\<not> dict_contains ''table_name'' filters \<Longrightarrow>
     build_filter_query filters
       = (Inl (CHR 0x27 # ''table_name' is required in filters parameter''), filters)"
  by (simp add: build_filter_query_def)

text \<open>
  C8, as stated: two filter mappings with the same set of keys and the same value of
  \<open>table_name\<close> give the same statement text. It fails for two mappings that hold the
  same keys in a different order: the clauses follow the order of the dictionary.
\<close>

theorem filter_values_bound_counterexample:
  "set (keys [(''table_name'', ''t''), (''a'', ''1'')])
     = set (keys [(''a'', ''2''), (''table_name'', ''t'')])
   \<and> map_of [(''table_name'', ''t''), (''a'', ''1'')] ''table_name''
     = map_of [(''a'', ''2''), (''table_name'', ''t'')] ''table_name''
   \<and> fst (build_filter_query [(''table_name'', ''t''), (''a'', ''1'')])
     = Inr (''SELECT * FROM t WHERE table_name = %s AND a = %s'', [''t'', ''1''])
   \<and> fst (build_filter_query [(''a'', ''2''), (''table_name'', ''t'')])
     = Inr (''SELECT * FROM t WHERE a = %s AND table_name = %s'', [''2'', ''t''])
   \<and> ''SELECT * FROM t WHERE table_name = %s AND a = %s''
     \<noteq> ''SELECT * FROM t WHERE a = %s AND table_name = %s''"
  by (simp add: build_filter_query_def dict_contains_def keys_def dict_pop_def insert_commute)

text \<open>
  C8, amended. Two filter mappings with the same keys in the same order and the same
  value of \<open>table_name\<close> give the same statement text (or fail with the same error),
  whatever their other values are; the values are the bound parameters, in the order of
  the dictionary, and occur nowhere else.
\<close>

theorem filter_values_bound:
  assumes "keys f1 = keys f2"
    and "map_of f1 ''table_name'' = map_of f2 ''table_name''"
  shows "(\<exists>m. fst (build_filter_query f1) = Inl m \<and> fst (build_filter_query f2) = Inl m)
         \<or> (\<exists>text. fst (build_filter_query f1) = Inr (text, map snd f1)
                  \<and> fst (build_filter_query f2) = Inr (text, map snd f2))"
proof (cases "map_of f1 ''table_name''")
  case None
  with assms(2) have "\<not> dict_contains ''table_name'' f1" "\<not> dict_contains ''table_name'' f2"
    by (simp_all add: dict_contains_map_of)
  then show ?thesis by (simp add: build_filter_query_absent)
next
  case (Some t)
  with assms(2) have "map_of f2 ''table_name'' = Some t" by simp
  with Some assms(1) show ?thesis by (simp add: build_filter_query_present)
qed

theorem filter_values_bound_witness:
  "keys [(''table_name'', ''t''), (''a'', ''1'')] = keys [(''table_name'', ''t''), (''a'', ''2'')]
   \<and> map_of [(''table_name'', ''t''), (''a'', ''1'')] ''table_name''
     = map_of [(''table_name'', ''t''), (''a'', ''2'')] ''table_name''
   \<and> fst (build_filter_query [(''table_name'', ''t''), (''a'', ''1'')])
     = Inr (''SELECT * FROM t WHERE table_name = %s AND a = %s'', [''t'', ''1''])
   \<and> fst (build_filter_query [(''table_name'', ''t''), (''a'', ''2'')])
     = Inr (''SELECT * FROM t WHERE table_name = %s AND a = %s'', [''t'', ''2''])"
  using filter_values_bound [of "[(''table_name'', ''t''), (''a'', ''1'')]"
          "[(''table_name'', ''t''), (''a'', ''2'')]"]
  by (simp add: keys_def build_filter_query_def dict_contains_def dict_pop_def)

section \<open>The caller's filters after filter_instances\<close>

text \<open>
  C10, as stated: whenever the filters contain \<open>table_name\<close>, \<open>filter_instances\<close> removes
  that key from the caller's dictionary. It fails when the server cannot be reached: the
  connection is opened first, and the dictionary still holds \<open>table_name\<close> after the call.
\<close>

theorem filter_instances_pops_table_name_counterexample:
  "dict_contains ''table_name'' [(''table_name'', ''widgets''), (''region'', ''us-west-1'')]
   \<and> dict_contains ''table_name''
        (fst (snd (filter_instances unreachable
                     [(''table_name'', ''widgets''), (''region'', ''us-west-1'')])))"
  by (simp add: dict_contains_def keys_def filter_instances_def filter_instances_body_def
        unreachable_def)

text \<open>
  C10, amended. When the filters contain \<open>table_name\<close>, lines 188-206 read the whole
  dictionary first: the statement has one clause for every key, \<open>table_name\<close> included,
  and every value is a bound parameter. Only then is \<open>table_name\<close> popped from the caller's
  dictionary, the other entries staying as they were. \<open>filter_instances\<close> reaches these
  lines once the connection is open, and then leaves the caller's dictionary popped,
  also when the statement fails later; when the connection cannot be opened the
  dictionary is untouched.
\<close>

theorem filter_instances_pops_table_name:
  assumes "dict_contains ''table_name'' filters"
  shows "(\<exists>t. map_of filters ''table_name'' = Some t
            \<and> fst (build_filter_query filters)
                = Inr (''SELECT * FROM '' @ t @ '' WHERE ''
                         @ join '' AND '' (map (\<lambda>k. k @ '' = %s'') (keys filters)),
                       map snd filters))
         \<and> snd (build_filter_query filters) = filter (\<lambda>kv. fst kv \<noteq> ''table_name'') filters
         \<and> \<not> dict_contains ''table_name'' (snd (build_filter_query filters))
         \<and> (connect ex = None \<longrightarrow>
               fst (snd (filter_instances ex filters)) = snd (build_filter_query filters)
               \<and> (\<exists>text rest. fst (build_filter_query filters) = Inr (text, map snd filters)
                     \<and> snd (snd (filter_instances ex filters))
                         = Opened # Executed text (map snd filters) # rest))
         \<and> (\<forall>m. connect ex = Some m \<longrightarrow> fst (snd (filter_instances ex filters)) = filters)"
proof -
  from assms obtain t where t: "map_of filters ''table_name'' = Some t"
    by (auto simp: dict_contains_map_of)
  note built = build_filter_query_present [OF t]
  have gone: "\<not> dict_contains ''table_name'' (filter (\<lambda>kv. fst kv \<noteq> ''table_name'') filters)"
    by (auto simp: dict_contains_def keys_def)
  have run: "connect ex = None \<Longrightarrow>
      fst (snd (filter_instances ex filters)) = snd (build_filter_query filters)
      \<and> (\<exists>text rest. fst (build_filter_query filters) = Inr (text, map snd filters)
            \<and> snd (snd (filter_instances ex filters))
                = Opened # Executed text (map snd filters) # rest)"
    by (simp add: built filter_instances_def filter_instances_body_def
          split: sum.splits option.splits)
  have down: "connect ex = Some m \<Longrightarrow> fst (snd (filter_instances ex filters)) = filters" for m
    by (simp add: filter_instances_def filter_instances_body_def)
  from t built gone run down show ?thesis by simp
qed

theorem filter_instances_pops_table_name_witness:
  "dict_contains ''table_name'' [(''table_name'', ''widgets''), (''region'', ''us-west-1'')]
   \<and> connect rejecting = None
   \<and> filter_instances rejecting [(''table_name'', ''widgets''), (''region'', ''us-west-1'')]
       = (ErrorPayload ''relation does not exist'', [(''region'', ''us-west-1'')],
          [Opened,
           Executed ''SELECT * FROM widgets WHERE table_name = %s AND region = %s''
             [''widgets'', ''us-west-1'']])
   \<and> connect unreachable = Some ''connection refused''
   \<and> fst (snd (filter_instances unreachable
             [(''table_name'', ''widgets''), (''region'', ''us-west-1'')]))
       = [(''table_name'', ''widgets''), (''region'', ''us-west-1'')]"
  using filter_instances_pops_table_name
          [of "[(''table_name'', ''widgets''), (''region'', ''us-west-1'')]" rejecting]
        filter_instances_pops_table_name
          [of "[(''table_name'', ''widgets''), (''region'', ''us-west-1'')]" unreachable]
  by (simp add: dict_contains_def keys_def rejecting_def unreachable_def
        filter_instances_def filter_instances_body_def build_filter_query_def dict_pop_def
        catch_def)

section \<open>Failures at the tool boundary\<close>

lemma body_raise_caught:
  "fst (execute_query_body ex q) = Inl m \<Longrightarrow> fst (execute_query ex q) = ErrorPayload m"
  "fst (list_tables_body ex) = Inl m \<Longrightarrow> fst (list_tables ex) = ErrorPayload m"
  "fst (get_table_schema_body ex t) = Inl m \<Longrightarrow> fst (get_table_schema ex t) = ErrorPayload m"
  "fst (filter_instances_body ex f) = Inl m \<Longrightarrow> fst (filter_instances ex f) = ErrorPayload m"
  "fst (get_database_stats_body ex) = Inl m \<Longrightarrow> fst (get_database_stats ex) = ErrorPayload m"
  by (simp_all add: execute_query_def list_tables_def get_table_schema_def
        filter_instances_def get_database_stats_def catch_def split_def)

lemma connection_failure_caught:
  assumes "connect down = Some c"
  shows "fst (list_tables down) = ErrorPayload c"
    and "fst (get_table_schema down t) = ErrorPayload c"
    and "fst (filter_instances down f) = ErrorPayload c"
    and "fst (get_database_stats down) = ErrorPayload c"
    and "startswith (lower (strip q)) ''select'' \<Longrightarrow> fst (execute_query down q) = ErrorPayload c"
  using assms
  by (simp_all add: list_tables_def list_tables_body_def get_table_schema_def
        get_table_schema_body_def filter_instances_def filter_instances_body_def
        get_database_stats_def get_database_stats_body_def execute_query_def
        execute_query_body_def catch_def)

lemma validation_failure_caught:
  "\<not> startswith (lower (strip bad)) ''select'' \<Longrightarrow>
     fst (execute_query ex bad) = ErrorPayload ''Only SELECT queries are allowed.''"
  "connect ex = None \<Longrightarrow> \<not> dict_contains ''table_name'' g \<Longrightarrow>
     fst (filter_instances ex g)
       = ErrorPayload (CHR 0x27 # ''table_name' is required in filters parameter'')"
  by (simp_all add: execute_query_def execute_query_body_def filter_instances_def
        filter_instances_body_def build_filter_query_def catch_def)

lemma execution_failure_caught:
  assumes "connect ex = None"
  shows "startswith (lower (strip q)) ''select'' \<Longrightarrow> execute ex q [] = Inl m \<Longrightarrow>
           fst (execute_query ex q) = ErrorPayload m"
    and "execute ex list_tables_sql [] = Inl m \<Longrightarrow> fst (list_tables ex) = ErrorPayload m"
    and "execute ex schema_sql [t] = Inl m \<Longrightarrow> fst (get_table_schema ex t) = ErrorPayload m"
    and "fst (build_filter_query f) = Inr (text, ps) \<Longrightarrow> execute ex text ps = Inl m \<Longrightarrow>
           fst (filter_instances ex f) = ErrorPayload m"
    and "execute ex size_sql [] = Inl m \<Longrightarrow> fst (get_database_stats ex) = ErrorPayload m"
  using assms
  by (simp_all add: list_tables_def list_tables_body_def get_table_schema_def
        get_table_schema_body_def filter_instances_def filter_instances_body_def
        get_database_stats_def get_database_stats_body_def execute_query_def
        execute_query_body_def query_one_def catch_def split_def)

lemma normalisation_failure_caught:
  assumes "startswith (lower (strip q)) ''select''" "connect short = None"
    and "execute short q [] = Inr r" "fetched r = Inr rows" "description r = Some cols"
    and "close short = None" "format_results (index_error short) cols rows = Inl e"
  shows "fst (execute_query short q) = ErrorPayload e"
  using assms
  by (simp add: execute_query_def execute_query_body_def column_names_of_def catch_def)

lemma sample_bodies:
  "fst (execute_query_body rejecting ''SELECT * FROM missing'') = Inl ''relation does not exist''"
  "fst (list_tables_body rejecting) = Inl ''relation does not exist''"
  "fst (get_table_schema_body rejecting ''missing'') = Inl ''relation does not exist''"
  "fst (filter_instances_body rejecting [(''table_name'', ''missing'')])
     = Inl ''relation does not exist''"
  "fst (get_database_stats_body rejecting) = Inl ''relation does not exist''"
  "fst (build_filter_query [(''table_name'', ''missing'')])
     = Inr (''SELECT * FROM missing WHERE table_name = %s'', [''missing''])"
  by (simp_all add: execute_query_body_def sample_queries rejecting_def list_tables_body_def
        get_table_schema_body_def filter_instances_body_def get_database_stats_body_def
        query_one_def build_filter_query_def dict_contains_def keys_def dict_pop_def)

text \<open>
  C4. Every tool wraps its whole body in \<open>try ... except Exception\<close>, so a tool always
  returns a value, and whatever the body raises with message \<open>m\<close> comes back as
  \<open>{"error": m}\<close>. Stage by stage: a connection that cannot be opened, a query that is
  not a SELECT or filters without \<open>table_name\<close>, a statement that the executor rejects, and
  a row too short for its columns each make the tool return the payload with the message
  of that failure.
\<close>

theorem failures_become_error_payloads:
  "(fst (execute_query_body ex q) = Inl m \<longrightarrow> fst (execute_query ex q) = ErrorPayload m)
   \<and> (fst (list_tables_body ex) = Inl m \<longrightarrow> fst (list_tables ex) = ErrorPayload m)
   \<and> (fst (get_table_schema_body ex t) = Inl m \<longrightarrow> fst (get_table_schema ex t) = ErrorPayload m)
   \<and> (fst (filter_instances_body ex f) = Inl m \<longrightarrow> fst (filter_instances ex f) = ErrorPayload m)
   \<and> (fst (get_database_stats_body ex) = Inl m \<longrightarrow> fst (get_database_stats ex) = ErrorPayload m)
   \<and> (connect down = Some c \<longrightarrow>
         fst (list_tables down) = ErrorPayload c
         \<and> fst (get_table_schema down t) = ErrorPayload c
         \<and> fst (filter_instances down f) = ErrorPayload c
         \<and> fst (get_database_stats down) = ErrorPayload c
         \<and> (startswith (lower (strip q)) ''select'' \<longrightarrow>
               fst (execute_query down q) = ErrorPayload c))
   \<and> (\<not> startswith (lower (strip bad)) ''select'' \<longrightarrow>
         fst (execute_query ex bad) = ErrorPayload ''Only SELECT queries are allowed.'')
   \<and> (connect ex = None \<longrightarrow> \<not> dict_contains ''table_name'' g \<longrightarrow>
         fst (filter_instances ex g)
           = ErrorPayload (CHR 0x27 # ''table_name' is required in filters parameter''))
   \<and> (connect ex = None \<longrightarrow>
         (startswith (lower (strip q)) ''select'' \<longrightarrow> execute ex q [] = Inl m \<longrightarrow>
            fst (execute_query ex q) = ErrorPayload m)
         \<and> (execute ex list_tables_sql [] = Inl m \<longrightarrow> fst (list_tables ex) = ErrorPayload m)
         \<and> (execute ex schema_sql [t] = Inl m \<longrightarrow> fst (get_table_schema ex t) = ErrorPayload m)
         \<and> (fst (build_filter_query f) = Inr (text, ps) \<longrightarrow> execute ex text ps = Inl m \<longrightarrow>
               fst (filter_instances ex f) = ErrorPayload m)
         \<and> (execute ex size_sql [] = Inl m \<longrightarrow> fst (get_database_stats ex) = ErrorPayload m))
   \<and> (startswith (lower (strip q)) ''select'' \<longrightarrow> connect short = None \<longrightarrow>
         execute short q [] = Inr r \<longrightarrow> fetched r = Inr rows \<longrightarrow> description r = Some cols \<longrightarrow>
         close short = None \<longrightarrow> format_results (index_error short) cols rows = Inl e \<longrightarrow>
         fst (execute_query short q) = ErrorPayload e)"
proof -
  have bodies:
    "fst (execute_query_body ex q) = Inl m \<longrightarrow> fst (execute_query ex q) = ErrorPayload m"
    "fst (list_tables_body ex) = Inl m \<longrightarrow> fst (list_tables ex) = ErrorPayload m"
    "fst (get_table_schema_body ex t) = Inl m \<longrightarrow> fst (get_table_schema ex t) = ErrorPayload m"
    "fst (filter_instances_body ex f) = Inl m \<longrightarrow> fst (filter_instances ex f) = ErrorPayload m"
    "fst (get_database_stats_body ex) = Inl m \<longrightarrow> fst (get_database_stats ex) = ErrorPayload m"
    by (simp_all add: body_raise_caught)
  have connection:
    "connect down = Some c \<longrightarrow>
       fst (list_tables down) = ErrorPayload c
       \<and> fst (get_table_schema down t) = ErrorPayload c
       \<and> fst (filter_instances down f) = ErrorPayload c
       \<and> fst (get_database_stats down) = ErrorPayload c
       \<and> (startswith (lower (strip q)) ''select'' \<longrightarrow>
             fst (execute_query down q) = ErrorPayload c)"
    by (simp add: connection_failure_caught)
  have validation:
    "\<not> startswith (lower (strip bad)) ''select'' \<longrightarrow>
       fst (execute_query ex bad) = ErrorPayload ''Only SELECT queries are allowed.''"
    "connect ex = None \<longrightarrow> \<not> dict_contains ''table_name'' g \<longrightarrow>
       fst (filter_instances ex g)
         = ErrorPayload (CHR 0x27 # ''table_name' is required in filters parameter'')"
    by (simp_all add: validation_failure_caught)
  have execution:
    "connect ex = None \<longrightarrow>
       (startswith (lower (strip q)) ''select'' \<longrightarrow> execute ex q [] = Inl m \<longrightarrow>
          fst (execute_query ex q) = ErrorPayload m)
       \<and> (execute ex list_tables_sql [] = Inl m \<longrightarrow> fst (list_tables ex) = ErrorPayload m)
       \<and> (execute ex schema_sql [t] = Inl m \<longrightarrow> fst (get_table_schema ex t) = ErrorPayload m)
       \<and> (fst (build_filter_query f) = Inr (text, ps) \<longrightarrow> execute ex text ps = Inl m \<longrightarrow>
             fst (filter_instances ex f) = ErrorPayload m)
       \<and> (execute ex size_sql [] = Inl m \<longrightarrow> fst (get_database_stats ex) = ErrorPayload m)"
    using execution_failure_caught [of ex] by blast
  have normalisation:
    "startswith (lower (strip q)) ''select'' \<longrightarrow> connect short = None \<longrightarrow>
       execute short q [] = Inr r \<longrightarrow> fetched r = Inr rows \<longrightarrow> description r = Some cols \<longrightarrow>
       close short = None \<longrightarrow> format_results (index_error short) cols rows = Inl e \<longrightarrow>
       fst (execute_query short q) = ErrorPayload e"
    using normalisation_failure_caught by blast
  from bodies connection validation execution normalisation show ?thesis
    by (intro conjI)
qed

theorem failures_become_error_payloads_witness:
  "fst (execute_query_body rejecting ''SELECT * FROM missing'') = Inl ''relation does not exist''
   \<and> fst (execute_query rejecting ''SELECT * FROM missing'')
       = ErrorPayload ''relation does not exist''
   \<and> fst (list_tables rejecting) = ErrorPayload ''relation does not exist''
   \<and> fst (get_table_schema rejecting ''missing'') = ErrorPayload ''relation does not exist''
   \<and> fst (filter_instances rejecting [(''table_name'', ''missing'')])
       = ErrorPayload ''relation does not exist''
   \<and> fst (get_database_stats rejecting) = ErrorPayload ''relation does not exist''
   \<and> connect unreachable = Some ''connection refused''
   \<and> fst (list_tables unreachable) = ErrorPayload ''connection refused''
   \<and> fst (get_table_schema unreachable ''missing'') = ErrorPayload ''connection refused''
   \<and> fst (filter_instances unreachable [(''table_name'', ''missing'')])
       = ErrorPayload ''connection refused''
   \<and> fst (get_database_stats unreachable) = ErrorPayload ''connection refused''
   \<and> fst (execute_query unreachable ''SELECT * FROM missing'')
       = ErrorPayload ''connection refused''
   \<and> fst (execute_query rejecting ''DROP TABLE widgets'')
       = ErrorPayload ''Only SELECT queries are allowed.''
   \<and> fst (filter_instances rejecting [(''region'', ''us-west-1'')])
       = ErrorPayload (CHR 0x27 # ''table_name' is required in filters parameter'')
   \<and> format_results (index_error (answering [''a'', ''b''] [[Num 1]])) [''a'', ''b''] [[Num 1]]
       = Inl ''list index out of range''
   \<and> fst (execute_query (answering [''a'', ''b''] [[Num 1]]) ''SELECT * FROM missing'')
       = ErrorPayload ''list index out of range''"
  using failures_become_error_payloads
          [of rejecting "''SELECT * FROM missing''" "''relation does not exist''" "''missing''"
              "[(''table_name'', ''missing'')]" unreachable "''connection refused''"
              "''DROP TABLE widgets''" "[(''region'', ''us-west-1'')]"
              "''SELECT * FROM missing WHERE table_name = %s''" "[''missing'']"
              "answering [''a'', ''b''] [[Num 1]]"
              "\<lparr>fetched = Inr [[Num 1]], description = Some [''a'', ''b'']\<rparr>"
              "[[Num 1]]" "[''a'', ''b'']" "''list index out of range''"]
  by (simp add: sample_bodies sample_queries dict_contains_def keys_def)
     (simp add: rejecting_def unreachable_def answering_def)

section \<open>What the server answers to the statements of get_database_stats\<close>





lemma parsed_schema:
  "parse_select schema_sql
     = Some \<lparr>st_items =
               [(Column ''column_name'', ''column_name''),
                (Column ''data_type'', ''data_type''),
                (Column ''is_nullable'', ''is_nullable''),
                (Column ''column_default'', ''column_default'')],
             st_source = Some ''information_schema.columns'',
             st_conditions = [(''table_name'', Parameter)],
             st_ordering = Some (Column ''ordinal_position'', False),
             st_limit = None\<rparr>"
  by code_simp

subsection \<open>The stable order is an allowed order\<close>




subsection \<open>The single-row statements\<close>







subsection \<open>The five largest tables\<close>






subsection \<open>The columns of a table name\<close>

lemma keep_table_name:
  "keep db [t] [(''table_name'', Parameter)] (map columns_row cs)
     = Some (map columns_row (filter (\<lambda>c. col_table c = clip 63 t) cs))"
  by (induction cs) (auto simp: columns_row_def)

lemma project_length: "project db its rows = Some out \<Longrightarrow> length out = length rows"
  by (induction rows arbitrary: out) (auto split: option.splits)

text \<open>Whatever the order among equal positions, the statement of \<open>get_table_schema\<close>
  gives one row for every column of every table of that name, in any schema.\<close>

lemma answers_schema_length:
  assumes "answers db schema_sql [t] rows"
  shows "length rows = length (filter (\<lambda>c. col_table c = clip 63 t) (db_columns db))"
proof -
  from assms obtain ordered
    where m: "mset ordered
                = mset (map columns_row (filter (\<lambda>c. col_table c = clip 63 t) (db_columns db)))"
      and p: "project db
                [(Column ''column_name'', ''column_name''), (Column ''data_type'', ''data_type''),
                 (Column ''is_nullable'', ''is_nullable''),
                 (Column ''column_default'', ''column_default'')]
                ordered = Some rows"
    by (auto simp: answers_def parsed_schema selected_def relation_def keep_table_name
          counting_def cut_limit_def)
  from m have "length ordered
                 = length (map columns_row (filter (\<lambda>c. col_table c = clip 63 t) (db_columns db)))"
    by (metis size_mset)
  with project_length [OF p] show ?thesis by simp
qed

subsection \<open>The statements are answered\<close>




section \<open>The mapping of get_database_stats\<close>










end
